theory Spec2Isabelle
  imports Complex_Main "HOL-Library.Multiset" "HOL-Library.AList"
begin

section \<open>ECMAScript values and conversions\<close>

text \<open>
  The transformation pipeline of \<^verbatim>\<open>src/App.tsx\<close> works on rows whose cells are
  ECMAScript primitives.  Numbers are modelled by exact rationals extended with
  \<open>NaN\<close> and the two infinities: rounding and overflow of IEEE doubles are not
  modelled, and \<open>-0\<close> is identified with \<open>0\<close>.  Strings are lists of 8-bit
  code units (the Latin-1 part of UTF-16).
\<close>

datatype jsnum = NaN | PInf | NInf | Fin rat

datatype jsval = JUndef | JNull | JBool bool | JNum jsnum | JStr string

text \<open>What an identifier is bound to where \<^verbatim>\<open>eval\<close> is called: nothing, a
  primitive, or something that is not a primitive (an object or a function).\<close>

datatype binding = Unbound | Prim jsval | Opaque

text \<open>
  What the code takes from its host and its libraries rather than from its own text:
  the decimal form of a number that is not an integer below \<open>10^21\<close>, the
  locale-aware string comparison, whether \<^verbatim>\<open>Date.parse\<close> accepts a string, whether
  \<^verbatim>\<open>new RegExp\<close> accepts a pattern source, and the bindings of the scopes that enclose
  \<^verbatim>\<open>applyTransformations\<close> (component, module and global object).
\<close>

record host =
  fmt_number :: "rat \<Rightarrow> string"
  localeCompare :: "string \<Rightarrow> string \<Rightarrow> int"
  date_parses :: "string \<Rightarrow> bool"
  regexp_ok :: "string \<Rightarrow> bool"
  outer_scope :: "string \<Rightarrow> binding"

subsection \<open>Characters and strings\<close>

definition code :: "char \<Rightarrow> nat" where
  "code c = of_char c"

definition is_ws :: "char \<Rightarrow> bool" where
  \<comment> \<open>WhiteSpace and LineTerminator below 256: TAB, LF, VT, FF, CR, SP, NBSP\<close>
  "is_ws c = (code c \<in> {9, 10, 11, 12, 13, 32, 160})"

definition is_digit :: "char \<Rightarrow> bool" where
  "is_digit c = (48 \<le> code c \<and> code c \<le> 57)"

definition is_letter_us :: "char \<Rightarrow> bool" where
  \<comment> \<open>the class \<^verbatim>\<open>[A-Za-z_]\<close>\<close>
  "is_letter_us c = ((65 \<le> code c \<and> code c \<le> 90) \<or> (97 \<le> code c \<and> code c \<le> 122) \<or> c = CHR ''_'')"

definition lower_char :: "char \<Rightarrow> char" where
  "lower_char c =
     (if (65 \<le> code c \<and> code c \<le> 90) \<or> (192 \<le> code c \<and> code c \<le> 214) \<or> (216 \<le> code c \<and> code c \<le> 222)
      then char_of (code c + 32) else c)"

definition toLowerCase :: "string \<Rightarrow> string" where
  "toLowerCase s = map lower_char s"

definition trim :: "string \<Rightarrow> string" where
  "trim s = rev (dropWhile is_ws (rev (dropWhile is_ws s)))"

definition startsWith :: "string \<Rightarrow> string \<Rightarrow> bool" where
  "startsWith s t = (take (length t) s = t)"

definition endsWith :: "string \<Rightarrow> string \<Rightarrow> bool" where
  "endsWith s t = startsWith (rev s) (rev t)"

fun js_includes :: "string \<Rightarrow> string \<Rightarrow> bool" where
  "js_includes [] t = (t = [])"
| "js_includes (c # cs) t = (startsWith (c # cs) t \<or> js_includes cs t)"

subsection \<open>Number to string\<close>

definition digit_char :: "nat \<Rightarrow> char" where
  "digit_char d = char_of (48 + d)"

fun nat_digits :: "nat \<Rightarrow> string" where
  "nat_digits n = (if n < 10 then [digit_char n] else nat_digits (n div 10) @ [digit_char (n mod 10)])"

declare nat_digits.simps [simp del]

definition int_to_string :: "int \<Rightarrow> string" where
  "int_to_string i = (if i < 0 then CHR ''-'' # nat_digits (nat (- i)) else nat_digits (nat i))"

definition is_integer :: "rat \<Rightarrow> bool" where
  "is_integer q = (q = of_int \<lfloor>q\<rfloor>)"

definition num_to_string :: "host \<Rightarrow> jsnum \<Rightarrow> string" where
  "num_to_string h n =
     (case n of
        NaN \<Rightarrow> ''NaN''
      | PInf \<Rightarrow> ''Infinity''
      | NInf \<Rightarrow> ''-Infinity''
      | Fin q \<Rightarrow> if is_integer q \<and> \<bar>q\<bar> < 10 ^ 21 then int_to_string \<lfloor>q\<rfloor> else fmt_number h q)"

definition ToString :: "host \<Rightarrow> jsval \<Rightarrow> string" where
  \<comment> \<open>\<^verbatim>\<open>String(v)\<close>\<close>
  "ToString h v =
     (case v of
        JUndef \<Rightarrow> ''undefined''
      | JNull \<Rightarrow> ''null''
      | JBool b \<Rightarrow> (if b then ''true'' else ''false'')
      | JNum n \<Rightarrow> num_to_string h n
      | JStr s \<Rightarrow> s)"

subsection \<open>String to number\<close>

definition digit_val :: "char \<Rightarrow> nat" where
  "digit_val c =
     (if is_digit c then code c - 48
      else if 97 \<le> code c \<and> code c \<le> 102 then code c - 87
      else if 65 \<le> code c \<and> code c \<le> 70 then code c - 55
      else 0)"

definition is_radix_digit :: "nat \<Rightarrow> char \<Rightarrow> bool" where
  "is_radix_digit b c =
     ((is_digit c \<or> (97 \<le> code c \<and> code c \<le> 102) \<or> (65 \<le> code c \<and> code c \<le> 70)) \<and> digit_val c < b)"

definition parse_radix :: "int \<Rightarrow> string \<Rightarrow> int" where
  "parse_radix b s = foldl (\<lambda>a c. b * a + int (digit_val c)) 0 s"

definition scale10 :: "rat \<Rightarrow> int \<Rightarrow> rat" where
  "scale10 m e = (if 0 \<le> e then m * 10 ^ nat e else m / 10 ^ nat (- e))"

definition exponent_part :: "string \<Rightarrow> int option" where
  \<comment> \<open>the rest of a decimal literal after its mantissa: empty, or e/E, a sign, digits\<close>
  "exponent_part s =
     (case s of
        [] \<Rightarrow> Some 0
      | c # r \<Rightarrow>
          if c = CHR ''e'' \<or> c = CHR ''E'' then
            (let neg = (r \<noteq> [] \<and> hd r = CHR ''-'');
                 ds = (if r \<noteq> [] \<and> (hd r = CHR ''-'' \<or> hd r = CHR ''+'') then tl r else r)
             in if ds \<noteq> [] \<and> list_all is_digit ds
                then Some (if neg then - parse_radix 10 ds else parse_radix 10 ds)
                else None)
          else None)"

definition unsigned_decimal :: "string \<Rightarrow> jsnum option" where
  \<comment> \<open>StrUnsignedDecimalLiteral; \<open>None\<close> when the text is not one\<close>
  "unsigned_decimal s =
     (if s = ''Infinity'' then Some PInf
      else
        (let ip = takeWhile is_digit s;
             r1 = dropWhile is_digit s;
             dot = (r1 \<noteq> [] \<and> hd r1 = CHR ''.'');
             fp = (if dot then takeWhile is_digit (tl r1) else []);
             r2 = (if dot then dropWhile is_digit (tl r1) else r1)
         in if ip = [] \<and> fp = [] then None
            else
              (case exponent_part r2 of
                 None \<Rightarrow> None
               | Some e \<Rightarrow>
                   Some (Fin (scale10 (of_int (parse_radix 10 ip) + of_int (parse_radix 10 fp) / 10 ^ length fp) e)))))"

definition js_neg :: "jsnum \<Rightarrow> jsnum" where
  "js_neg n = (case n of NaN \<Rightarrow> NaN | PInf \<Rightarrow> NInf | NInf \<Rightarrow> PInf | Fin q \<Rightarrow> Fin (- q))"

definition non_decimal :: "string \<Rightarrow> jsnum option" where
  \<comment> \<open>NonDecimalIntegerLiteral: 0x, 0o, 0b and their digits, no sign\<close>
  "non_decimal s =
     (case s of
        z # x # ds \<Rightarrow>
          (let b = (if x = CHR ''x'' \<or> x = CHR ''X'' then 16
                    else if x = CHR ''o'' \<or> x = CHR ''O'' then 8
                    else if x = CHR ''b'' \<or> x = CHR ''B'' then 2 else (0::nat))
           in if z = CHR ''0'' \<and> b \<noteq> 0 \<and> ds \<noteq> [] \<and> list_all (is_radix_digit b) ds
              then Some (Fin (of_int (parse_radix (int b) ds))) else None)
      | _ \<Rightarrow> None)"

definition StringToNumber :: "string \<Rightarrow> jsnum" where
  "StringToNumber s =
     (let t = trim s in
      if t = [] then Fin 0
      else
        (case non_decimal t of
           Some n \<Rightarrow> n
         | None \<Rightarrow>
             (if hd t = CHR ''-'' then (case unsigned_decimal (tl t) of Some n \<Rightarrow> js_neg n | None \<Rightarrow> NaN)
              else if hd t = CHR ''+'' then (case unsigned_decimal (tl t) of Some n \<Rightarrow> n | None \<Rightarrow> NaN)
              else (case unsigned_decimal t of Some n \<Rightarrow> n | None \<Rightarrow> NaN))))"

definition ToNumber :: "jsval \<Rightarrow> jsnum" where
  \<comment> \<open>\<^verbatim>\<open>Number(v)\<close>\<close>
  "ToNumber v =
     (case v of
        JUndef \<Rightarrow> NaN
      | JNull \<Rightarrow> Fin 0
      | JBool b \<Rightarrow> Fin (if b then 1 else 0)
      | JNum n \<Rightarrow> n
      | JStr s \<Rightarrow> StringToNumber s)"

subsection \<open>Arithmetic, comparison, truthiness\<close>

definition isNaN :: "jsnum \<Rightarrow> bool" where
  "isNaN n = (n = NaN)"

definition js_add :: "jsnum \<Rightarrow> jsnum \<Rightarrow> jsnum" where
  "js_add a b =
     (case (a, b) of
        (NaN, _) \<Rightarrow> NaN
      | (_, NaN) \<Rightarrow> NaN
      | (PInf, NInf) \<Rightarrow> NaN
      | (NInf, PInf) \<Rightarrow> NaN
      | (PInf, _) \<Rightarrow> PInf
      | (_, PInf) \<Rightarrow> PInf
      | (NInf, _) \<Rightarrow> NInf
      | (_, NInf) \<Rightarrow> NInf
      | (Fin x, Fin y) \<Rightarrow> Fin (x + y))"

definition js_sub :: "jsnum \<Rightarrow> jsnum \<Rightarrow> jsnum" where
  "js_sub a b = js_add a (js_neg b)"

definition js_div_nat :: "jsnum \<Rightarrow> nat \<Rightarrow> jsnum" where
  \<comment> \<open>a number divided by an array length\<close>
  "js_div_nat a n =
     (case a of
        NaN \<Rightarrow> NaN
      | PInf \<Rightarrow> PInf
      | NInf \<Rightarrow> NInf
      | Fin q \<Rightarrow>
          if n = 0 then (if q = 0 then NaN else if 0 < q then PInf else NInf)
          else Fin (q / of_nat n))"

definition js_lt :: "jsnum \<Rightarrow> jsnum \<Rightarrow> bool" where
  "js_lt a b =
     (case (a, b) of
        (NaN, _) \<Rightarrow> False
      | (_, NaN) \<Rightarrow> False
      | (Fin x, Fin y) \<Rightarrow> x < y
      | (NInf, NInf) \<Rightarrow> False
      | (NInf, _) \<Rightarrow> True
      | (_, NInf) \<Rightarrow> False
      | (PInf, _) \<Rightarrow> False
      | (_, PInf) \<Rightarrow> True)"

definition js_gt :: "jsnum \<Rightarrow> jsnum \<Rightarrow> bool" where
  "js_gt a b = js_lt b a"

definition js_eq :: "jsnum \<Rightarrow> jsnum \<Rightarrow> bool" where
  \<comment> \<open>\<^verbatim>\<open>===\<close> on numbers\<close>
  "js_eq a b = (a \<noteq> NaN \<and> a = b)"

definition js_le :: "jsnum \<Rightarrow> jsnum \<Rightarrow> bool" where
  "js_le a b = (js_lt a b \<or> js_eq a b)"

definition js_ge :: "jsnum \<Rightarrow> jsnum \<Rightarrow> bool" where
  "js_ge a b = js_le b a"

definition truthy :: "jsval \<Rightarrow> bool" where
  "truthy v =
     (case v of
        JUndef \<Rightarrow> False
      | JNull \<Rightarrow> False
      | JBool b \<Rightarrow> b
      | JNum n \<Rightarrow> n \<noteq> NaN \<and> n \<noteq> Fin 0
      | JStr s \<Rightarrow> s \<noteq> [])"

definition is_number :: "jsval \<Rightarrow> bool" where
  \<comment> \<open>\<^verbatim>\<open>typeof v === 'number'\<close>\<close>
  "is_number v = (case v of JNum _ \<Rightarrow> True | _ \<Rightarrow> False)"

subsection \<open>Rows\<close>

text \<open>A row is an object: its properties in creation order.  Reading a property that
  the row does not have gives \<open>undefined\<close>; the properties every object inherits
  (\<^verbatim>\<open>constructor\<close>, \<^verbatim>\<open>toString\<close> and the like) are not modelled.\<close>

type_synonym row = "(string \<times> jsval) list"

definition row_get :: "row \<Rightarrow> string \<Rightarrow> jsval" where
  "row_get r k = (case map_of r k of None \<Rightarrow> JUndef | Some v \<Rightarrow> v)"

section \<open>Filter stage\<close>

record FilterConfig =
  f_column :: string
  f_operator :: string
  f_value :: string
  f_value2 :: "string option"

definition filter_pred :: "host \<Rightarrow> FilterConfig \<Rightarrow> row \<Rightarrow> bool" where
  "filter_pred h f r =
     (let v = row_get r (f_column f);
          strValue = toLowerCase (ToString h v);
          filterValue = toLowerCase (f_value f);
          filterValue2 = (case f_value2 f of None \<Rightarrow> JUndef | Some s \<Rightarrow> JStr (toLowerCase s));
          op = f_operator f
      in if op = ''equals'' then toLowerCase (ToString h v) = filterValue
         else if op = ''contains'' then js_includes strValue filterValue
         else if op = ''startsWith'' then startsWith strValue filterValue
         else if op = ''endsWith'' then endsWith strValue filterValue
         else if op = ''gt'' then js_gt (ToNumber v) (StringToNumber filterValue)
         else if op = ''lt'' then js_lt (ToNumber v) (StringToNumber filterValue)
         else if op = ''gte'' then js_ge (ToNumber v) (StringToNumber filterValue)
         else if op = ''lte'' then js_le (ToNumber v) (StringToNumber filterValue)
         else if op = ''between'' then
           js_ge (ToNumber v) (StringToNumber filterValue) \<and> js_le (ToNumber v) (ToNumber filterValue2)
         else if op = ''isEmpty'' then \<not> truthy v \<or> v = JStr [] \<or> v = JNull \<or> v = JUndef
         else if op = ''isNotEmpty'' then truthy v \<and> v \<noteq> JStr [] \<and> v \<noteq> JNull \<and> v \<noteq> JUndef
         else True)"

definition apply_filters :: "host \<Rightarrow> FilterConfig list \<Rightarrow> row list \<Rightarrow> row list" where
  \<comment> \<open>\<^verbatim>\<open>filters.forEach(filter => { data = data.filter(...) })\<close>\<close>
  "apply_filters h fs data = foldl (\<lambda>d f. filter (filter_pred h f) d) data fs"

definition known_operators :: "string list" where
  "known_operators =
     [''equals'', ''contains'', ''startsWith'', ''endsWith'', ''gt'', ''lt'', ''gte'', ''lte'',
      ''between'', ''isEmpty'', ''isNotEmpty'']"

section \<open>Type profiler\<close>

datatype ColumnType = TString | TNumber | TBoolean | TDate | TEmpty

definition non_empty :: "jsval \<Rightarrow> bool" where
  \<comment> \<open>\<^verbatim>\<open>v !== null && v !== undefined && v !== ''\<close>\<close>
  "non_empty v = (v \<noteq> JNull \<and> v \<noteq> JUndef \<and> v \<noteq> JStr [])"

definition is_boolean :: "jsval \<Rightarrow> bool" where
  \<comment> \<open>\<^verbatim>\<open>typeof v === 'boolean'\<close>\<close>
  "is_boolean v = (case v of JBool _ \<Rightarrow> True | _ \<Rightarrow> False)"

definition boolean_tokens :: "string list" where
  "boolean_tokens = [''true'', ''false'', ''1'', ''0'', ''yes'', ''no'']"

definition detectColumnType :: "host \<Rightarrow> jsval list \<Rightarrow> ColumnType" where
  "detectColumnType h values =
     (let nonEmpty = filter non_empty values in
      if length nonEmpty = 0 then TEmpty
      else
        (let sample = take 100 nonEmpty;
             isNumber = list_all (\<lambda>v. \<not> isNaN (ToNumber v) \<and> v \<noteq> JStr []) sample
         in if isNumber then TNumber
            else
              (let isBoolean =
                     list_all (\<lambda>v. is_boolean v \<or> toLowerCase (ToString h v) \<in> set boolean_tokens) sample
               in if isBoolean then TBoolean
                  else
                    (let isDate = list_all (\<lambda>v. date_parses h (ToString h v)) sample
                     in if isDate then TDate else TString))))"

definition parses_finite :: "jsval \<Rightarrow> bool" where
  \<comment> \<open>the value parses as a finite number\<close>
  "parses_finite v = (case ToNumber v of Fin _ \<Rightarrow> True | _ \<Rightarrow> False)"

section \<open>Sort stage\<close>

datatype direction = asc | desc

record SortConfig =
  s_column :: string
  s_direction :: direction

fun comparator :: "host \<Rightarrow> SortConfig list \<Rightarrow> row \<Rightarrow> row \<Rightarrow> jsnum" where
  "comparator h [] a b = Fin 0"
| "comparator h (s # ss) a b =
     (let aVal = row_get a (s_column s);
          bVal = row_get b (s_column s);
          comparison =
            (if is_number aVal \<and> is_number bVal then js_sub (ToNumber aVal) (ToNumber bVal)
             else Fin (of_int (localeCompare h (ToString h aVal) (ToString h bVal))))
      in if comparison \<noteq> Fin 0 then (if s_direction s = asc then comparison else js_neg comparison)
         else comparator h ss a b)"

text \<open>
  \<^verbatim>\<open>Array.prototype.sort\<close> with a comparison function.  The standard requires a stable
  sort, which for a consistent comparison function fixes the result: it is what this
  insertion sort computes.  A comparison result that is \<open>NaN\<close> counts as \<open>0\<close>.  For a
  comparison function that is not consistent the standard leaves the order to the
  implementation; the model is the insertion sort there too.
\<close>

fun insert_sorted :: "('a \<Rightarrow> 'a \<Rightarrow> jsnum) \<Rightarrow> 'a \<Rightarrow> 'a list \<Rightarrow> 'a list" where
  "insert_sorted cmp x [] = [x]"
| "insert_sorted cmp x (y # ys) =
     (if js_gt (cmp x y) (Fin 0) then y # insert_sorted cmp x ys else x # y # ys)"

definition array_sort :: "('a \<Rightarrow> 'a \<Rightarrow> jsnum) \<Rightarrow> 'a list \<Rightarrow> 'a list" where
  "array_sort cmp xs = foldr (insert_sorted cmp) xs []"

definition apply_sort :: "host \<Rightarrow> SortConfig list \<Rightarrow> row list \<Rightarrow> row list" where
  "apply_sort h sortConfig data =
     (if length sortConfig > 0 then array_sort (comparator h sortConfig) data else data)"

text \<open>The same sort on rows that carry their input position, to tell equal rows apart.\<close>

definition tagged_sort :: "host \<Rightarrow> SortConfig list \<Rightarrow> row list \<Rightarrow> (nat \<times> row) list" where
  "tagged_sort h sortConfig data =
     array_sort (\<lambda>a b. comparator h sortConfig (snd a) (snd b)) (enumerate 0 data)"

definition ties_in_order :: "('a \<Rightarrow> nat) \<Rightarrow> ('a \<Rightarrow> 'a \<Rightarrow> jsnum) \<Rightarrow> 'a list \<Rightarrow> bool" where
  \<comment> \<open>an element stands before every element of a later input position that it ties with\<close>
  "ties_in_order tag cmp ys =
     (\<forall>p q. p < length ys \<and> q < length ys \<and> tag (ys ! p) < tag (ys ! q) \<and> cmp (ys ! p) (ys ! q) = Fin 0
        \<longrightarrow> p < q)"

section \<open>Objects and grouping\<close>

text \<open>
  An ordinary object is the list of its properties in creation order.  Assigning to a
  property it has keeps its place; a new property goes last (\<open>AList.update\<close>).
  \<^verbatim>\<open>Object.entries\<close> lists the properties whose key is an array index (a canonical
  numeric string below \<open>2^32 - 1\<close>) first, in ascending numeric order, then the other
  properties in creation order.
\<close>

type_synonym 'a obj = "(string \<times> 'a) list"

definition is_array_index :: "string \<Rightarrow> bool" where
  "is_array_index k =
     (k \<noteq> [] \<and> list_all is_digit k \<and> (hd k \<noteq> CHR ''0'' \<or> k = ''0'') \<and> parse_radix 10 k < 4294967295)"

definition index_value :: "string \<Rightarrow> int" where
  "index_value k = parse_radix 10 k"

definition own_entries :: "'a obj \<Rightarrow> (string \<times> 'a) list" where
  "own_entries ob =
     sort_key (\<lambda>p. index_value (fst p)) (filter (\<lambda>p. is_array_index (fst p)) ob)
     @ filter (\<lambda>p. \<not> is_array_index (fst p)) ob"

definition groupBy :: "('a \<Rightarrow> string) \<Rightarrow> 'a list \<Rightarrow> 'a list obj" where
  \<comment> \<open>lodash \<^verbatim>\<open>_.groupBy\<close>: the key is the property key the iteratee's value converts to;
     a column name given as the iteratee is read as the property of that name\<close>
  "groupBy key xs =
     foldl (\<lambda>result x.
              case map_of result (key x) of
                None \<Rightarrow> AList.update (key x) [x] result
              | Some g \<Rightarrow> AList.update (key x) (g @ [x]) result) [] xs"

text \<open>The orders the claims speak of: distinct keys as they first appear, and the
  order in which \<^verbatim>\<open>Object.entries\<close> lists keys created in a given order.\<close>

definition first_occurrences :: "'a list \<Rightarrow> 'a list" where
  "first_occurrences xs = rev (remdups (rev xs))"

definition key_order :: "string list \<Rightarrow> string list" where
  "key_order ks = sort_key index_value (filter is_array_index ks) @ filter (\<lambda>k. \<not> is_array_index k) ks"

section \<open>Aggregation stage\<close>

record AggregationConfig =
  a_column :: string
  a_operation :: string

definition numeric_values :: "string \<Rightarrow> row list \<Rightarrow> jsnum list" where
  \<comment> \<open>\<^verbatim>\<open>rows.map(r => Number(r[col])).filter(n => !isNaN(n))\<close>\<close>
  "numeric_values col rows = filter (\<lambda>n. \<not> isNaN n) (map (\<lambda>r. ToNumber (row_get r col)) rows)"

definition lodash_sum :: "jsnum list \<Rightarrow> jsnum" where
  "lodash_sum vs = (case vs of [] \<Rightarrow> Fin 0 | v # rest \<Rightarrow> foldl js_add v rest)"

definition lodash_mean :: "jsnum list \<Rightarrow> jsnum" where
  "lodash_mean vs = (if length vs = 0 then NaN else js_div_nat (lodash_sum vs) (length vs))"

definition lodash_extremum :: "(jsnum \<Rightarrow> jsnum \<Rightarrow> bool) \<Rightarrow> jsnum list \<Rightarrow> jsval" where
  \<comment> \<open>lodash \<^verbatim>\<open>baseExtremum\<close>: the first value that is not \<open>NaN\<close>, replaced by each later
     value the comparison prefers; \<open>undefined\<close> when there is none\<close>
  "lodash_extremum better vs =
     (case foldl (\<lambda>computed x.
                    case computed of
                      None \<Rightarrow> if x \<noteq> NaN then Some x else None
                    | Some m \<Rightarrow> if better x m then Some x else Some m) None vs of
        None \<Rightarrow> JUndef
      | Some m \<Rightarrow> JNum m)"

definition lodash_min :: "jsnum list \<Rightarrow> jsval" where
  "lodash_min vs = lodash_extremum js_lt vs"

definition lodash_max :: "jsnum list \<Rightarrow> jsval" where
  "lodash_max vs = lodash_extremum js_gt vs"

definition compareAscending :: "jsnum \<Rightarrow> jsnum \<Rightarrow> jsnum" where
  \<comment> \<open>on numbers that are not \<open>NaN\<close>\<close>
  "compareAscending a b = (if js_gt a b then Fin 1 else if js_lt a b then Fin (- 1) else Fin 0)"

definition lodash_sortBy :: "jsnum list \<Rightarrow> jsnum list" where
  \<comment> \<open>lodash \<^verbatim>\<open>_.sortBy\<close> with the identity: ascending, ties by position\<close>
  "lodash_sortBy vs = array_sort compareAscending vs"

definition array_get :: "jsnum list \<Rightarrow> nat \<Rightarrow> jsval" where
  \<comment> \<open>reading an array element: \<open>undefined\<close> out of range\<close>
  "array_get xs i = (if i < length xs then JNum (xs ! i) else JUndef)"

definition agg_row :: "host \<Rightarrow> AggregationConfig \<Rightarrow> string \<Rightarrow> row list \<Rightarrow> row" where
  "agg_row h cfg key rows =
     (let vals = numeric_values (a_column cfg) rows;
          result = AList.update ''_count'' (JNum (Fin (of_nat (length rows))))
                     (AList.update (a_column cfg) (JStr key) []);
          op = a_operation cfg
      in if op = ''sum'' then AList.update ''_value'' (JNum (lodash_sum vals)) result
         else if op = ''mean'' then AList.update ''_value'' (JNum (lodash_mean vals)) result
         else if op = ''median'' then
           AList.update ''_value'' (array_get (lodash_sortBy vals) (length vals div 2)) result
         else if op = ''count'' then AList.update ''_value'' (JNum (Fin (of_nat (length rows)))) result
         else if op = ''min'' then AList.update ''_value'' (lodash_min vals) result
         else if op = ''max'' then AList.update ''_value'' (lodash_max vals) result
         else result)"

definition group_key :: "host \<Rightarrow> string \<Rightarrow> row \<Rightarrow> string" where
  "group_key h col r = ToString h (row_get r col)"

definition agg_groups :: "host \<Rightarrow> AggregationConfig \<Rightarrow> row list \<Rightarrow> (string \<times> row list) list" where
  \<comment> \<open>\<^verbatim>\<open>Object.entries(_.groupBy(data, aggregation.column))\<close>\<close>
  "agg_groups h cfg data = own_entries (groupBy (group_key h (a_column cfg)) data)"

definition aggregate :: "host \<Rightarrow> AggregationConfig \<Rightarrow> row list \<Rightarrow> row list" where
  "aggregate h cfg data = map (\<lambda>(key, rows). agg_row h cfg key rows) (agg_groups h cfg data)"

definition apply_aggregation :: "host \<Rightarrow> AggregationConfig option \<Rightarrow> row list \<Rightarrow> row list" where
  "apply_aggregation h aggregation data =
     (case aggregation of None \<Rightarrow> data | Some cfg \<Rightarrow> aggregate h cfg data)"

section \<open>Pivot stage\<close>

record PivotConfig =
  p_rows :: "string list"
  p_columns :: "string list"
  p_values :: "string list"
  p_aggregation :: string

definition join_part :: "host \<Rightarrow> jsval \<Rightarrow> string" where
  \<comment> \<open>\<^verbatim>\<open>Array.prototype.join\<close> writes \<open>undefined\<close> and \<open>null\<close> as the empty string\<close>
  "join_part h v = (case v of JUndef \<Rightarrow> [] | JNull \<Rightarrow> [] | _ \<Rightarrow> ToString h v)"

fun join_sep :: "string \<Rightarrow> string list \<Rightarrow> string" where
  "join_sep sep [] = []"
| "join_sep sep [x] = x"
| "join_sep sep (x # y # ys) = x @ sep @ join_sep sep (y # ys)"

definition pivot_key :: "host \<Rightarrow> PivotConfig \<Rightarrow> row \<Rightarrow> string" where
  \<comment> \<open>\<^verbatim>\<open>pivotConfig.rows.map(r => row[r]).join('::')\<close>\<close>
  "pivot_key h cfg r = join_sep ''::'' (map (\<lambda>c. join_part h (row_get r c)) (p_rows cfg))"

fun split_colons :: "string \<Rightarrow> string \<Rightarrow> string list" where
  \<comment> \<open>\<^verbatim>\<open>key.split('::')\<close>, with the piece read so far\<close>
  "split_colons cur [] = [cur]"
| "split_colons cur (c # cs) =
     (case cs of
        [] \<Rightarrow> split_colons (cur @ [c]) cs
      | d # ds \<Rightarrow>
          if c = CHR '':'' \<and> d = CHR '':'' then cur # split_colons [] ds
          else split_colons (cur @ [c]) cs)"

definition part_get :: "string list \<Rightarrow> nat \<Rightarrow> jsval" where
  "part_get parts i = (if i < length parts then JStr (parts ! i) else JUndef)"

definition pivot_set :: "host \<Rightarrow> string \<Rightarrow> row list \<Rightarrow> row \<Rightarrow> string \<Rightarrow> row" where
  \<comment> \<open>the body of \<^verbatim>\<open>pivotConfig.values.forEach(val => ...)\<close>\<close>
  "pivot_set h agg rows r val =
     (let vals = numeric_values val rows
      in if agg = ''sum'' then AList.update (val @ ''_sum'') (JNum (lodash_sum vals)) r
         else if agg = ''count'' then AList.update (val @ ''_count'') (JNum (Fin (of_nat (length vals)))) r
         else if agg = ''avg'' then AList.update (val @ ''_avg'') (JNum (lodash_mean vals)) r
         else if agg = ''min'' then AList.update (val @ ''_min'') (lodash_min vals) r
         else if agg = ''max'' then AList.update (val @ ''_max'') (lodash_max vals) r
         else r)"

definition pivot_row :: "host \<Rightarrow> PivotConfig \<Rightarrow> string \<Rightarrow> row list \<Rightarrow> row" where
  "pivot_row h cfg key rows =
     (let labelled =
            foldl (\<lambda>r (i, c). AList.update c (part_get (split_colons [] key) i) r) []
              (enumerate 0 (p_rows cfg))
      in foldl (pivot_set h (p_aggregation cfg) rows) labelled (p_values cfg))"

definition pivot_groups :: "host \<Rightarrow> PivotConfig \<Rightarrow> row list \<Rightarrow> (string \<times> row list) list" where
  "pivot_groups h cfg data = own_entries (groupBy (pivot_key h cfg) data)"

definition pivot :: "host \<Rightarrow> PivotConfig \<Rightarrow> row list \<Rightarrow> row list" where
  "pivot h cfg data = map (\<lambda>(key, rows). pivot_row h cfg key rows) (pivot_groups h cfg data)"

definition apply_pivot :: "host \<Rightarrow> PivotConfig option \<Rightarrow> row list \<Rightarrow> row list" where
  "apply_pivot h pivotConfig data =
     (case pivotConfig of
        None \<Rightarrow> data
      | Some cfg \<Rightarrow> if length (p_rows cfg) > 0 \<and> length (p_values cfg) > 0 then pivot h cfg data else data)"

section \<open>Formula stage\<close>

subsection \<open>Global replacement by a regular expression\<close>

text \<open>
  \<^verbatim>\<open>s.replace(/re/g, callback)\<close>: the text is scanned from the left; where the
  expression matches, the match is replaced by what the callback returns and the scan
  goes on behind the match; elsewhere the character is kept.  The matcher \<open>m\<close> is given
  the rest of the text and answers the length of the match at its start (at least one
  character for the expressions used here) and the replacement, which is \<open>None\<close> when
  computing it leaves what is modelled of \<^verbatim>\<open>eval\<close>.
\<close>

function replace_all :: "(string \<Rightarrow> (nat \<times> string option) option) \<Rightarrow> string \<Rightarrow> string option" where
  "replace_all m [] = Some []"
| "replace_all m (c # cs) =
     (case m (c # cs) of
        None \<Rightarrow> map_option ((#) c) (replace_all m cs)
      | Some (n, r) \<Rightarrow>
          (case r of
             None \<Rightarrow> None
           | Some rs \<Rightarrow> map_option ((@) rs) (replace_all m (drop (n - 1) cs))))"
  by pat_completeness auto
termination
  by (relation "measure (\<lambda>(m, s). length s)") auto

definition upper_ascii :: "char \<Rightarrow> char" where
  "upper_ascii c = (if 97 \<le> code c \<and> code c \<le> 122 then char_of (code c - 32) else c)"

definition ci_prefix :: "string \<Rightarrow> string \<Rightarrow> bool" where
  \<comment> \<open>the text begins with the upper-case word \<open>w\<close>, letter case ignored (flag \<^verbatim>\<open>i\<close>)\<close>
  "ci_prefix w s = (length w \<le> length s \<and> map upper_ascii (take (length w) s) = w)"

definition match_call :: "string \<Rightarrow> (string \<Rightarrow> string option) \<Rightarrow> string \<Rightarrow> (nat \<times> string option) option" where
  \<comment> \<open>\<^verbatim>\<open>/NAME\(([^)]+)\)/gi\<close>\<close>
  "match_call name cb s =
     (if ci_prefix (name @ ''('') s then
        (let rest = drop (length name + 1) s;
             arg = takeWhile (\<lambda>c. c \<noteq> CHR '')'') rest
         in if arg \<noteq> [] \<and> length arg < length rest
            then Some (length name + 1 + length arg + 1, cb arg) else None)
      else None)"

definition match_if ::
  "(string \<Rightarrow> string \<Rightarrow> string \<Rightarrow> string \<Rightarrow> string option) \<Rightarrow> string \<Rightarrow> (nat \<times> string option) option" where
  \<comment> \<open>\<^verbatim>\<open>/IF\(([^,]+),([^,]+),([^)]+)\)/gi\<close>; the callback gets the match and the three groups\<close>
  "match_if cb s =
     (if ci_prefix ''IF('' s then
        (let r1 = drop 3 s;
             cond = takeWhile (\<lambda>c. c \<noteq> CHR '','') r1;
             r2 = drop (length cond + 1) r1;
             trueVal = takeWhile (\<lambda>c. c \<noteq> CHR '','') r2;
             r3 = drop (length trueVal + 1) r2;
             falseVal = takeWhile (\<lambda>c. c \<noteq> CHR '')'') r3;
             n = 3 + length cond + 1 + length trueVal + 1 + length falseVal + 1
         in if cond \<noteq> [] \<and> length cond < length r1
               \<and> trueVal \<noteq> [] \<and> length trueVal < length r2
               \<and> falseVal \<noteq> [] \<and> length falseVal < length r3
            then Some (n, cb (take n s) cond trueVal falseVal) else None)
      else None)"

definition match_row :: "string \<Rightarrow> string \<Rightarrow> (nat \<times> string option) option" where
  \<comment> \<open>\<^verbatim>\<open>/ROW\(\)/g\<close> with a replacement text of digits\<close>
  "match_row repl s = (if startsWith s ''ROW()'' then Some (5, Some repl) else None)"

definition match_ident :: "(string \<Rightarrow> string) \<Rightarrow> string \<Rightarrow> (nat \<times> string option) option" where
  \<comment> \<open>\<^verbatim>\<open>/([A-Za-z_]+)/g\<close>\<close>
  "match_ident cb s =
     (let name = takeWhile is_letter_us s
      in if name \<noteq> [] then Some (length name, Some (cb name)) else None)"

subsection \<open>The comparison inside \<^verbatim>\<open>IF\<close>\<close>

definition cond_ops :: "string list" where
  \<comment> \<open>the alternatives of the operator group, in the order of the source\<close>
  "cond_ops = [''&gt;='', ''&lt;='', ''&gt;'', ''&lt;'', ''='', ''=='', ''!='']"

definition is_digit_or_dot :: "char \<Rightarrow> bool" where
  "is_digit_or_dot c = (is_digit c \<or> c = CHR ''.'')"

fun match_op :: "string list \<Rightarrow> string \<Rightarrow> (string \<times> nat \<times> string) option" where
  \<comment> \<open>the first alternative behind which \<^verbatim>\<open>\s*([0-9.]+)\<close> matches: the operator, the number
     of blanks behind it, and the literal\<close>
  "match_op [] s = None"
| "match_op (op # ops) s =
     (if startsWith s op then
        (let r = drop (length op) s;
             val = takeWhile is_digit_or_dot (dropWhile is_ws r)
         in if val \<noteq> [] then Some (op, length (takeWhile is_ws r), val) else match_op ops s)
      else match_op ops s)"

definition cond_result :: "row \<Rightarrow> string \<Rightarrow> string \<Rightarrow> string \<Rightarrow> string" where
  \<comment> \<open>the callback of the inner \<^verbatim>\<open>replace\<close>; the \<^verbatim>\<open>case\<close> labels are those of the source\<close>
  "cond_result r col op val =
     (let rowVal = ToNumber (row_get r (trim col));
          compVal = StringToNumber val;
          res = (if op = ''&gt;'' then js_gt rowVal compVal
                 else if op = ''&lt;'' then js_lt rowVal compVal
                 else if op = ''&gt;='' then js_ge rowVal compVal
                 else if op = ''&lt;='' then js_le rowVal compVal
                 else if op = ''='' \<or> op = ''=='' then js_eq rowVal compVal
                 else if op = ''!='' then \<not> js_eq rowVal compVal
                 else False)
      in if res then ''true'' else ''false'')"

definition match_cond :: "row \<Rightarrow> string \<Rightarrow> (nat \<times> string option) option" where
  \<comment> \<open>\<^verbatim>\<open>/([A-Za-z_]+)\s*(&gt;=|&lt;=|&gt;|&lt;|=|==|!=)\s*([0-9.]+)/g\<close>\<close>
  "match_cond r s =
     (let col = takeWhile is_letter_us s;
          r1 = drop (length col) s
      in if col = [] then None
         else
           (case match_op cond_ops (dropWhile is_ws r1) of
              None \<Rightarrow> None
            | Some (op, blanks, val) \<Rightarrow>
                Some (length col + length (takeWhile is_ws r1) + length op + blanks + length val,
                      Some (cond_result r col op val))))"

subsection \<open>What is modelled of \<^verbatim>\<open>eval\<close>\<close>

text \<open>
  \<^verbatim>\<open>eval\<close> is modelled on the texts that are blank, or one operand, or two operands with
  a comparison operator between them, where an operand is a decimal literal without
  exponent (possibly negated), a string literal in single quotes without escapes,
  \<^verbatim>\<open>true\<close>, \<^verbatim>\<open>false\<close>, \<^verbatim>\<open>null\<close>, or an identifier.  An identifier that is not bound
  throws; so does any text of that shape when its first operand throws.  Every other
  text, and every identifier bound to something that is not a primitive, is
  \<open>Unmodelled\<close>: the model says nothing about it.
\<close>

datatype outcome = Value jsval | Throws | Unmodelled

datatype operand = ONum rat | OStr string | OIdent string

definition is_ident_start :: "char \<Rightarrow> bool" where
  "is_ident_start c = (is_letter_us c \<or> c = CHR ''$'')"

definition is_ident_part :: "char \<Rightarrow> bool" where
  "is_ident_part c = (is_ident_start c \<or> is_digit c)"

definition parse_number :: "string \<Rightarrow> (rat \<times> string) option" where
  \<comment> \<open>a decimal literal at the start of the text, and the rest\<close>
  "parse_number s =
     (let ip = takeWhile is_digit s;
          r1 = dropWhile is_digit s;
          dot = (r1 \<noteq> [] \<and> hd r1 = CHR ''.'');
          fp = (if dot then takeWhile is_digit (tl r1) else []);
          r2 = (if dot then dropWhile is_digit (tl r1) else r1)
      in if (ip = [] \<and> fp = []) \<or> (1 < length ip \<and> hd ip = CHR ''0'')
            \<or> (r2 \<noteq> [] \<and> is_ident_start (hd r2))
         then None
         else Some (of_int (parse_radix 10 ip) + of_int (parse_radix 10 fp) / 10 ^ length fp, r2))"

definition parse_operand :: "string \<Rightarrow> (operand \<times> string) option" where
  "parse_operand s =
     (case s of
        [] \<Rightarrow> None
      | c # cs \<Rightarrow>
          if is_digit c \<or> c = CHR ''.'' then
            (case parse_number s of None \<Rightarrow> None | Some (q, r) \<Rightarrow> Some (ONum q, r))
          else if c = CHR ''-'' then
            (case parse_number (dropWhile is_ws cs) of None \<Rightarrow> None | Some (q, r) \<Rightarrow> Some (ONum (- q), r))
          else if c = CHR 0x27 then
            (let body = takeWhile (\<lambda>d. d \<noteq> CHR 0x27) cs
             in if length body < length cs \<and> list_all (\<lambda>d. d \<noteq> CHR 0x5C \<and> code d \<noteq> 10 \<and> code d \<noteq> 13) body
                then Some (OStr body, drop (length body + 1) cs) else None)
          else if is_ident_start c then
            Some (OIdent (takeWhile is_ident_part s), dropWhile is_ident_part s)
          else None)"

definition reserved_words :: "string list" where
  \<comment> \<open>keywords and names with a meaning of their own: not modelled as identifiers\<close>
  "reserved_words =
     [''break'', ''case'', ''catch'', ''class'', ''const'', ''continue'', ''debugger'', ''default'',
      ''delete'', ''do'', ''else'', ''enum'', ''export'', ''extends'', ''finally'', ''for'', ''function'',
      ''if'', ''import'', ''in'', ''instanceof'', ''new'', ''return'', ''super'', ''switch'', ''this'',
      ''throw'', ''try'', ''typeof'', ''var'', ''void'', ''while'', ''with'', ''yield'', ''let'', ''static'',
      ''implements'', ''interface'', ''package'', ''private'', ''protected'', ''public'', ''await'',
      ''async'', ''arguments'', ''eval'']"

definition eval_operand :: "(string \<Rightarrow> binding) \<Rightarrow> operand \<Rightarrow> outcome" where
  "eval_operand scope a =
     (case a of
        ONum q \<Rightarrow> Value (JNum (Fin q))
      | OStr t \<Rightarrow> Value (JStr t)
      | OIdent name \<Rightarrow>
          if name = ''true'' then Value (JBool True)
          else if name = ''false'' then Value (JBool False)
          else if name = ''null'' then Value JNull
          else if name \<in> set reserved_words then Unmodelled
          else (case scope name of Unbound \<Rightarrow> Throws | Prim v \<Rightarrow> Value v | Opaque \<Rightarrow> Unmodelled))"

definition rel_ops :: "string list" where
  "rel_ops = [''==='', ''!=='', ''=='', ''!='', ''>='', ''<='', ''>'', ''<'']"

fun parse_relop :: "string list \<Rightarrow> string \<Rightarrow> (string \<times> string) option" where
  "parse_relop [] s = None"
| "parse_relop (op # ops) s = (if startsWith s op then Some (op, drop (length op) s) else parse_relop ops s)"

definition is_nullish :: "jsval \<Rightarrow> bool" where
  "is_nullish v = (v = JNull \<or> v = JUndef)"

definition is_string :: "jsval \<Rightarrow> bool" where
  "is_string v = (case v of JStr _ \<Rightarrow> True | _ \<Rightarrow> False)"

definition strict_equal :: "jsval \<Rightarrow> jsval \<Rightarrow> bool" where
  "strict_equal x y = (case (x, y) of (JNum a, JNum b) \<Rightarrow> js_eq a b | _ \<Rightarrow> x = y)"

definition loose_equal :: "jsval \<Rightarrow> jsval \<Rightarrow> bool" where
  "loose_equal x y =
     (if is_nullish x \<or> is_nullish y then is_nullish x \<and> is_nullish y
      else if is_string x \<and> is_string y then x = y
      else js_eq (ToNumber x) (ToNumber y))"

definition compare_values :: "string \<Rightarrow> jsval \<Rightarrow> jsval \<Rightarrow> outcome" where
  "compare_values op x y =
     (if op = ''==='' then Value (JBool (strict_equal x y))
      else if op = ''!=='' then Value (JBool (\<not> strict_equal x y))
      else if op = ''=='' then Value (JBool (loose_equal x y))
      else if op = ''!='' then Value (JBool (\<not> loose_equal x y))
      else if is_string x \<and> is_string y then Unmodelled
      else if op = ''>'' then Value (JBool (js_gt (ToNumber x) (ToNumber y)))
      else if op = ''<'' then Value (JBool (js_lt (ToNumber x) (ToNumber y)))
      else if op = ''>='' then Value (JBool (js_ge (ToNumber x) (ToNumber y)))
      else if op = ''<='' then Value (JBool (js_le (ToNumber x) (ToNumber y)))
      else Unmodelled)"

definition js_eval :: "(string \<Rightarrow> binding) \<Rightarrow> string \<Rightarrow> outcome" where
  "js_eval scope s =
     (let s1 = dropWhile is_ws s in
      if s1 = [] then Value JUndef
      else
        (case parse_operand s1 of
           None \<Rightarrow> Unmodelled
         | Some (a, r1) \<Rightarrow>
             (let r2 = dropWhile is_ws r1 in
              if r2 = [] then eval_operand scope a
              else
                (case parse_relop rel_ops r2 of
                   None \<Rightarrow> Unmodelled
                 | Some (op, r3) \<Rightarrow>
                     (case parse_operand (dropWhile is_ws r3) of
                        None \<Rightarrow> Unmodelled
                      | Some (b, r4) \<Rightarrow>
                          if dropWhile is_ws r4 \<noteq> [] then Unmodelled
                          else
                            (case eval_operand scope a of
                               Value x \<Rightarrow>
                                 (case eval_operand scope b of
                                    Value y \<Rightarrow> compare_values op x y
                                  | Throws \<Rightarrow> Throws
                                  | Unmodelled \<Rightarrow> Unmodelled)
                             | Throws \<Rightarrow> Throws
                             | Unmodelled \<Rightarrow> Unmodelled))))))"

subsection \<open>The scopes of the two calls of \<^verbatim>\<open>eval\<close>\<close>

text \<open>
  Both calls are direct, so the evaluated text sees the variables of the enclosing
  functions.  Inside the \<^verbatim>\<open>IF\<close> callback these are its parameters and \<^verbatim>\<open>condition\<close>;
  \<^verbatim>\<open>formulaStr\<close> and \<^verbatim>\<open>evalStr\<close> are declared but not yet initialised there, so reading
  them throws like reading an unbound name.
\<close>

definition if_scope ::
  "host \<Rightarrow> nat \<Rightarrow> string \<Rightarrow> string \<Rightarrow> string \<Rightarrow> string \<Rightarrow> string \<Rightarrow> string \<Rightarrow> binding" where
  "if_scope h idx whole cond trueVal falseVal condition name =
     (if name = ''_'' then Prim (JStr whole)
      else if name = ''cond'' then Prim (JStr cond)
      else if name = ''trueVal'' then Prim (JStr trueVal)
      else if name = ''falseVal'' then Prim (JStr falseVal)
      else if name = ''condition'' then Prim (JStr condition)
      else if name = ''idx'' then Prim (JNum (Fin (of_nat idx)))
      else if name = ''result'' then Prim JUndef
      else if name = ''row'' \<or> name = ''formula'' \<or> name = ''data'' then Opaque
      else if name = ''formulaStr'' \<or> name = ''evalStr'' then Unbound
      else outer_scope h name)"

definition eval_scope :: "host \<Rightarrow> nat \<Rightarrow> string \<Rightarrow> string \<Rightarrow> string \<Rightarrow> binding" where
  "eval_scope h idx formulaStr evalStr name =
     (if name = ''idx'' then Prim (JNum (Fin (of_nat idx)))
      else if name = ''result'' then Prim JUndef
      else if name = ''formulaStr'' then Prim (JStr formulaStr)
      else if name = ''evalStr'' then Prim (JStr evalStr)
      else if name = ''row'' \<or> name = ''formula'' \<or> name = ''data'' then Opaque
      else outer_scope h name)"

definition local_names :: "string list" where
  \<comment> \<open>the names \<open>eval_scope\<close> binds itself\<close>
  "local_names = [''idx'', ''result'', ''formulaStr'', ''evalStr'', ''row'', ''formula'', ''data'']"

definition literal_words :: "string list" where
  "literal_words = [''true'', ''false'', ''null'']"

subsection \<open>The rewriting steps and the stage\<close>

record FormulaConfig =
  fm_name :: string
  fm_formula :: string

definition js_sum :: "jsnum list \<Rightarrow> jsnum" where
  \<comment> \<open>\<^verbatim>\<open>values.reduce((a, b) => a + b, 0)\<close>\<close>
  "js_sum vs = foldl js_add (Fin 0) vs"

definition sum_callback :: "host \<Rightarrow> row list \<Rightarrow> nat \<Rightarrow> string \<Rightarrow> string" where
  "sum_callback h data idx cols =
     (let col = trim cols;
          vals = numeric_values col (take (idx + 1) data)
      in ToString h (JNum (js_sum vals)))"

definition avg_callback :: "host \<Rightarrow> row list \<Rightarrow> nat \<Rightarrow> string \<Rightarrow> string" where
  "avg_callback h data idx cols =
     (let col = trim cols;
          vals = numeric_values col (take (idx + 1) data)
      in ToString h (JNum (if length vals > 0 then js_div_nat (js_sum vals) (length vals) else Fin 0)))"

definition len_callback :: "host \<Rightarrow> row \<Rightarrow> string \<Rightarrow> string" where
  \<comment> \<open>\<^verbatim>\<open>String(String(row[col] || '').length)\<close>\<close>
  "len_callback h r cols =
     (let col = trim cols;
          v = row_get r col
      in ToString h (JNum (Fin (of_nat (length (ToString h (if truthy v then v else JStr [])))))))"

definition if_callback :: "host \<Rightarrow> row \<Rightarrow> nat \<Rightarrow> string \<Rightarrow> string \<Rightarrow> string \<Rightarrow> string \<Rightarrow> string option" where
  "if_callback h r idx whole cond trueVal falseVal =
     (case replace_all (match_cond r) cond of
        None \<Rightarrow> None
      | Some condition \<Rightarrow>
          (case js_eval (if_scope h idx whole cond trueVal falseVal condition) condition of
             Value v \<Rightarrow> Some (if truthy v then trim trueVal else trim falseVal)
           | Throws \<Rightarrow> Some (trim falseVal)
           | Unmodelled \<Rightarrow> None))"

definition formulaStr :: "host \<Rightarrow> FormulaConfig \<Rightarrow> row list \<Rightarrow> nat \<Rightarrow> row \<Rightarrow> string option" where
  "formulaStr h f data idx r =
     Option.bind (replace_all (match_call ''SUM'' (\<lambda>c. Some (sum_callback h data idx c))) (fm_formula f))
       (\<lambda>s1. Option.bind (replace_all (match_call ''AVG'' (\<lambda>c. Some (avg_callback h data idx c))) s1)
       (\<lambda>s2. Option.bind (replace_all (match_call ''LEN'' (\<lambda>c. Some (len_callback h r c))) s2)
       (\<lambda>s3. Option.bind (replace_all (match_if (if_callback h r idx)) s3)
       (\<lambda>s4. replace_all (match_row (ToString h (JNum (Fin (of_nat (idx + 1)))))) s4))))"

definition column_text :: "host \<Rightarrow> row \<Rightarrow> string \<Rightarrow> string" where
  \<comment> \<open>the callback of the last \<^verbatim>\<open>replace\<close>: a name the row has becomes its value, quoted
     when it is a string\<close>
  "column_text h r name =
     (if row_get r name \<noteq> JUndef
      then (case row_get r name of JStr t \<Rightarrow> [CHR 0x27] @ t @ [CHR 0x27] | v \<Rightarrow> ToString h v)
      else name)"

definition evalStr :: "host \<Rightarrow> row \<Rightarrow> string \<Rightarrow> string option" where
  "evalStr h r fs = replace_all (match_ident (column_text h r)) fs"

definition formula_result :: "host \<Rightarrow> string list \<Rightarrow> FormulaConfig \<Rightarrow> row list \<Rightarrow> nat \<Rightarrow> row \<Rightarrow> jsval option" where
  \<comment> \<open>the value of the new cell of row \<open>idx\<close>; \<open>None\<close> when an evaluation is not modelled.
     A column name that \<^verbatim>\<open>new RegExp\<close> rejects throws into the outer \<^verbatim>\<open>catch\<close>.\<close>
  "formula_result h columns f data idx r =
     (case formulaStr h f data idx r of
        None \<Rightarrow> None
      | Some fs \<Rightarrow>
          if \<not> list_all (regexp_ok h) columns then Some JNull
          else
            (case evalStr h r fs of
               None \<Rightarrow> None
             | Some es \<Rightarrow>
                 (case js_eval (eval_scope h idx fs es) es of
                    Value v \<Rightarrow> Some v
                  | Throws \<Rightarrow> Some JNull
                  | Unmodelled \<Rightarrow> None)))"

definition formula_row :: "host \<Rightarrow> string list \<Rightarrow> FormulaConfig \<Rightarrow> row list \<Rightarrow> nat \<times> row \<Rightarrow> row option" where
  \<comment> \<open>\<^verbatim>\<open>{ ...row, [formula.name]: result }\<close>; only the reading of properties matters, so the
     copy keeps the row's list\<close>
  "formula_row h columns f data ir =
     map_option (\<lambda>v. AList.update (fm_name f) v (snd ir)) (formula_result h columns f data (fst ir) (snd ir))"

definition apply_formula :: "host \<Rightarrow> string list \<Rightarrow> FormulaConfig \<Rightarrow> row list \<Rightarrow> row list option" where
  "apply_formula h columns f data = those (map (formula_row h columns f data) (enumerate 0 data))"

definition apply_formulas :: "host \<Rightarrow> string list \<Rightarrow> FormulaConfig list \<Rightarrow> row list \<Rightarrow> row list option" where
  "apply_formulas h columns fs data = foldl (\<lambda>d f. Option.bind d (apply_formula h columns f)) (Some data) fs"

section \<open>The pipeline\<close>

definition applyTransformations ::
  "host \<Rightarrow> row list \<Rightarrow> string list \<Rightarrow> FilterConfig list \<Rightarrow> SortConfig list \<Rightarrow>
   AggregationConfig option \<Rightarrow> PivotConfig option \<Rightarrow> FormulaConfig list \<Rightarrow> row list option" where
  \<comment> \<open>filter, sort, aggregate, pivot, formulas, in this order\<close>
  "applyTransformations h rawData columns filters sortConfig aggregation pivotConfig formulas =
     apply_formulas h columns formulas
       (apply_pivot h pivotConfig
         (apply_aggregation h aggregation
           (apply_sort h sortConfig
             (apply_filters h filters rawData))))"

section \<open>A host for worked examples\<close>

fun code_unit_compare :: "string \<Rightarrow> string \<Rightarrow> int" where
  "code_unit_compare [] [] = 0"
| "code_unit_compare [] (y # ys) = - 1"
| "code_unit_compare (x # xs) [] = 1"
| "code_unit_compare (x # xs) (y # ys) =
     (if code x < code y then - 1 else if code y < code x then 1 else code_unit_compare xs ys)"

definition example_host :: host where
  \<comment> \<open>strings compare by code units, no string is a date, a pattern of letters, digits and
     underscores compiles, and only the standard value properties of the global object are bound\<close>
  "example_host =
     \<lparr> fmt_number = (\<lambda>q. ''?''),
       localeCompare = code_unit_compare,
       date_parses = (\<lambda>s. False),
       regexp_ok = list_all (\<lambda>c. is_letter_us c \<or> is_digit c),
       outer_scope = (\<lambda>name. if name = ''NaN'' then Prim (JNum NaN)
                               else if name = ''Infinity'' then Prim (JNum PInf)
                               else if name = ''undefined'' then Prim JUndef
                               else Unbound) \<rparr>"

section \<open>Filter stage: unknown operators\<close>

lemma filter_pred_unknown:
  "f_operator f \<notin> set known_operators \<Longrightarrow> filter_pred h f r"
  by (simp add: filter_pred_def known_operators_def Let_def)

text \<open>
  C6.  For a filter whose operator is none of the eleven known ones the predicate is
  true on every row (the \<^verbatim>\<open>default\<close> branch of the \<^verbatim>\<open>switch\<close>), so the filter keeps
  every row.  The predicate is a total function of the row: no branch raises.
\<close>

theorem filter_unknown_operator_fails_open:
  assumes "f_operator f \<notin> set known_operators"
  shows "filter_pred h f r \<and> filter (filter_pred h f) data = data"
  using assms by (simp add: filter_pred_unknown)

theorem filter_unknown_operator_fails_open_witness:
  "filter_pred example_host
      \<lparr>f_column = ''a'', f_operator = ''matches'', f_value = ''x'', f_value2 = None\<rparr> [(''a'', JStr ''y'')]
   \<and> filter (filter_pred example_host
      \<lparr>f_column = ''a'', f_operator = ''matches'', f_value = ''x'', f_value2 = None\<rparr>)
        [[(''a'', JStr ''y'')], [(''a'', JNum (Fin 3))]] = [[(''a'', JStr ''y'')], [(''a'', JNum (Fin 3))]]"
proof -
  have "f_operator \<lparr>f_column = ''a'', f_operator = ''matches'', f_value = ''x'', f_value2 = None\<rparr>
          \<notin> set known_operators"
    by (simp add: known_operators_def)
  from filter_unknown_operator_fails_open [OF this] show ?thesis by blast
qed

section \<open>Type profiler: number before boolean\<close>

lemma parses_finite_not_NaN: "parses_finite v \<Longrightarrow> \<not> isNaN (ToNumber v)"
  by (auto simp: parses_finite_def isNaN_def split: jsnum.splits)

lemma sample_non_empty: "v \<in> set (take n (filter non_empty values)) \<Longrightarrow> v \<noteq> JStr []"
  using set_take_subset [of n "filter non_empty values"] by (auto simp: non_empty_def)

text \<open>
  C9.  When the column has a non-empty value and every sampled non-empty value (the
  first 100) parses as a finite number, the profiler answers \<open>number\<close>, whatever the
  boolean and date checks would say: the number check comes first.
\<close>

theorem detectColumnType_number_first:
  assumes "filter non_empty values \<noteq> []"
    and "list_all parses_finite (take 100 (filter non_empty values))"
  shows "detectColumnType h values = TNumber"
proof -
  let ?sample = "take 100 (filter non_empty values)"
  from assms(2) have "list_all (\<lambda>v. \<not> isNaN (ToNumber v) \<and> v \<noteq> JStr []) ?sample"
    unfolding list_all_iff using parses_finite_not_NaN sample_non_empty by blast
  with assms(1) show ?thesis
    by (simp add: detectColumnType_def Let_def)
qed

theorem detectColumnType_number_first_witness:
  "detectColumnType example_host [JStr ''0'', JStr ''1'', JStr ''0''] = TNumber
   \<and> list_all (\<lambda>v. toLowerCase (ToString example_host v) \<in> set boolean_tokens)
        [JStr ''0'', JStr ''1'', JStr ''0'']"
proof -
  have a: "filter non_empty [JStr ''0'', JStr ''1'', JStr ''0''] \<noteq> []"
    by code_simp
  have b: "list_all parses_finite (take 100 (filter non_empty [JStr ''0'', JStr ''1'', JStr ''0'']))"
    by code_simp
  have c: "list_all (\<lambda>v. toLowerCase (ToString example_host v) \<in> set boolean_tokens)
        [JStr ''0'', JStr ''1'', JStr ''0'']"
    by code_simp
  from detectColumnType_number_first [OF a b] c show ?thesis by simp
qed

section \<open>Sort stage: stability\<close>

lemma mset_insert_sorted: "mset (insert_sorted cmp x ys) = add_mset x (mset ys)"
  by (induction ys) auto

lemma mset_array_sort: "mset (array_sort cmp xs) = mset xs"
  unfolding array_sort_def by (induction xs) (auto simp: mset_insert_sorted)

lemma insert_sorted_map:
  "insert_sorted cmp (f x) (map f ys) = map f (insert_sorted (\<lambda>a b. cmp (f a) (f b)) x ys)"
  by (induction ys) auto

lemma array_sort_map:
  "array_sort cmp (map f xs) = map f (array_sort (\<lambda>a b. cmp (f a) (f b)) xs)"
  unfolding array_sort_def by (induction xs) (auto simp: insert_sorted_map)

lemma insert_sorted_ties: "\<forall>y \<in> set ys. \<not> js_gt (cmp x y) (Fin 0) \<Longrightarrow> insert_sorted cmp x ys = x # ys"
  by (cases ys) auto

lemma array_sort_no_keys: "array_sort (\<lambda>a b. Fin 0) xs = xs"
  unfolding array_sort_def by (induction xs) (auto simp: insert_sorted_ties js_gt_def js_lt_def)


lemma set_array_sort: "set (array_sort cmp xs) = set xs"
  using mset_array_sort [of cmp xs] by (metis set_mset_mset)

lemma insert_sorted_keeps_ties:
  fixes tag :: "'a \<Rightarrow> nat"
  assumes "sorted_wrt (\<lambda>y z. \<not> (tag z < tag y \<and> cmp z y = Fin 0)) ys"
    and "\<forall>y \<in> set ys. tag x < tag y"
  shows "sorted_wrt (\<lambda>y z. \<not> (tag z < tag y \<and> cmp z y = Fin 0)) (insert_sorted cmp x ys)"
  using assms
proof (induction ys)
  case Nil
  then show ?case by simp
next
  case (Cons y ys)
  show ?case
  proof (cases "js_gt (cmp x y) (Fin 0)")
    case True
    then have "cmp x y \<noteq> Fin 0"
      by (auto simp: js_gt_def js_lt_def)
    moreover have "set (insert_sorted cmp x ys) = insert x (set ys)"
      using mset_insert_sorted [of cmp x ys] by (metis set_mset_add_mset_insert set_mset_mset)
    ultimately show ?thesis
      using True Cons by auto
  next
    case False
    then show ?thesis
      using Cons.prems by fastforce
  qed
qed

lemma array_sort_keeps_ties:
  fixes tag :: "'a \<Rightarrow> nat"
  assumes "sorted_wrt (\<lambda>a b. tag a < tag b) xs"
  shows "sorted_wrt (\<lambda>y z. \<not> (tag z < tag y \<and> cmp z y = Fin 0)) (array_sort cmp xs)"
  using assms
proof (induction xs)
  case Nil
  then show ?case by (simp add: array_sort_def)
next
  case (Cons x xs)
  have "array_sort cmp (x # xs) = insert_sorted cmp x (array_sort cmp xs)"
    by (simp add: array_sort_def)
  moreover have "\<forall>y \<in> set (array_sort cmp xs). tag x < tag y"
    using Cons.prems by (simp add: set_array_sort)
  ultimately show ?case
    using Cons insert_sorted_keeps_ties [of tag cmp "array_sort cmp xs" x] by simp
qed

lemma array_sort_ties_in_order:
  assumes "sorted_wrt (\<lambda>a b. tag a < tag b) xs"
  shows "ties_in_order tag cmp (array_sort cmp xs)"
proof -
  let ?out = "array_sort cmp xs"
  have s: "sorted_wrt (\<lambda>y z. \<not> (tag z < tag y \<and> cmp z y = Fin 0)) ?out"
    using assms by (rule array_sort_keeps_ties)
  have "p < q" if "p < length ?out" "q < length ?out" "tag (?out ! p) < tag (?out ! q)"
    "cmp (?out ! p) (?out ! q) = Fin 0" for p q
  proof (rule ccontr)
    assume "\<not> p < q"
    then consider "p = q" | "q < p" by linarith
    then show False
    proof cases
      case 1
      with that(3) show False by simp
    next
      case 2
      with s that(1) have "\<not> (tag (?out ! p) < tag (?out ! q) \<and> cmp (?out ! p) (?out ! q) = Fin 0)"
        by (simp add: sorted_wrt_iff_nth_less)
      with that show False by simp
    qed
  qed
  then show ?thesis
    unfolding ties_in_order_def by blast
qed

lemma enumerate_increasing: "sorted_wrt (\<lambda>a b. fst a < fst b) (enumerate n xs)"
  by (induction xs arbitrary: n) (auto simp: in_set_enumerate_eq)



section \<open>Aggregation stage: one row per key, and their order\<close>

lemma update_group_keys:
  "map fst (case map_of acc k of None \<Rightarrow> AList.update k a acc | Some g \<Rightarrow> AList.update k (b g) acc)
     = (if k \<in> set (map fst acc) then map fst acc else map fst acc @ [k])"
  by (simp add: update_keys split: option.split)

lemma groupBy_foldl_keys:
  "map fst (foldl (\<lambda>result x.
              case map_of result (key x) of
                None \<Rightarrow> AList.update (key x) [x] result
              | Some g \<Rightarrow> AList.update (key x) (g @ [x]) result) acc xs)
   = foldl (\<lambda>ks k. if k \<in> set ks then ks else ks @ [k]) (map fst acc) (map key xs)"
proof (induction xs arbitrary: acc)
  case Nil
  then show ?case by simp
next
  case (Cons x xs)
  show ?case
    using Cons.IH by (simp add: update_group_keys)
qed

lemma foldl_first_occurrences:
  "foldl (\<lambda>ks k. if k \<in> set ks then ks else ks @ [k]) [] ks = first_occurrences ks"
proof (induction ks rule: rev_induct)
  case Nil
  then show ?case by (simp add: first_occurrences_def)
next
  case (snoc k ks)
  have "set (first_occurrences ks) = set ks"
    by (simp add: first_occurrences_def)
  with snoc show ?case
    by (simp add: first_occurrences_def)
qed

lemma groupBy_keys: "map fst (groupBy key xs) = first_occurrences (map key xs)"
  unfolding groupBy_def using groupBy_foldl_keys [of key "[]" xs] by (simp add: foldl_first_occurrences)

lemma map_insort_key: "map g (insort_key (\<lambda>p. f (g p)) x xs) = insort_key f (g x) (map g xs)"
  by (induction xs) auto

lemma map_sort_key: "map g (sort_key (\<lambda>p. f (g p)) xs) = sort_key f (map g xs)"
  by (induction xs) (auto simp: map_insort_key)

lemma own_entries_keys: "map fst (own_entries ob) = key_order (map fst ob)"
  by (simp add: own_entries_def key_order_def map_sort_key filter_map comp_def)

lemma agg_groups_keys:
  "map fst (agg_groups h cfg data) = key_order (first_occurrences (map (group_key h (a_column cfg)) data))"
  by (simp add: agg_groups_def own_entries_keys groupBy_keys)

lemma set_key_order: "set (key_order ks) = set ks"
  by (auto simp: key_order_def)

lemma distinct_key_order: "distinct ks \<Longrightarrow> distinct (key_order ks)"
  by (auto simp: key_order_def)

lemma length_key_order: "length (key_order ks) = length ks"
  by (simp add: key_order_def sum_length_filter_compl)

lemma distinct_first_occurrences: "distinct (first_occurrences xs)"
  by (simp add: first_occurrences_def)

lemma set_first_occurrences: "set (first_occurrences xs) = set xs"
  by (simp add: first_occurrences_def)

lemma agg_row_key_column:
  "a_column cfg \<noteq> ''_count'' \<Longrightarrow> a_column cfg \<noteq> ''_value'' \<Longrightarrow>
   row_get (agg_row h cfg key rows) (a_column cfg) = JStr key"
  by (simp add: agg_row_def row_get_def Let_def update_conv')





section \<open>Aggregation stage: the reductions\<close>

lemma foldl_js_add_Fin: "foldl js_add (Fin a) (map Fin qs) = Fin (a + sum_list qs)"
  by (induction qs arbitrary: a) (simp_all add: js_add_def add.assoc)

lemma lodash_sum_Fin: "lodash_sum (map Fin qs) = Fin (sum_list qs)"
  by (cases qs) (simp_all add: lodash_sum_def foldl_js_add_Fin)

lemma lodash_mean_Fin: "qs \<noteq> [] \<Longrightarrow> lodash_mean (map Fin qs) = Fin (sum_list qs / of_nat (length qs))"
  by (simp add: lodash_mean_def lodash_sum_Fin js_div_nat_def)

lemma insert_sorted_insort:
  "insert_sorted (\<lambda>a b. compareAscending (Fin a) (Fin b)) x ys = insort x ys"
  by (induction ys) (auto simp: compareAscending_def js_gt_def js_lt_def)

lemma array_sort_sort: "array_sort (\<lambda>a b. compareAscending (Fin a) (Fin b)) qs = sort qs"
  unfolding array_sort_def by (induction qs) (simp_all add: insert_sorted_insort)

lemma lodash_sortBy_Fin: "lodash_sortBy (map Fin qs) = map Fin (sort qs)"
  unfolding lodash_sortBy_def by (simp add: array_sort_map array_sort_sort)

lemma median_Fin:
  "qs \<noteq> [] \<Longrightarrow> array_get (lodash_sortBy (map Fin qs)) (length qs div 2) = JNum (Fin (sort qs ! (length qs div 2)))"
  by (simp add: lodash_sortBy_Fin array_get_def)

lemma extremum_foldl_min:
  "foldl (\<lambda>computed x. case computed of None \<Rightarrow> if x \<noteq> NaN then Some x else None
                          | Some m \<Rightarrow> if js_lt x m then Some x else Some m) (Some (Fin m)) (map Fin qs)
   = Some (Fin (fold min qs m))"
  by (induction qs arbitrary: m) (simp_all add: js_lt_def min_def)

lemma extremum_foldl_max:
  "foldl (\<lambda>computed x. case computed of None \<Rightarrow> if x \<noteq> NaN then Some x else None
                          | Some m \<Rightarrow> if js_gt x m then Some x else Some m) (Some (Fin m)) (map Fin qs)
   = Some (Fin (fold max qs m))"
  by (induction qs arbitrary: m) (simp_all add: js_gt_def js_lt_def max_def)

lemma lodash_min_Fin: "qs \<noteq> [] \<Longrightarrow> lodash_min (map Fin qs) = JNum (Fin (Min (set qs)))"
proof (cases qs)
  case Nil
  then show "qs \<noteq> [] \<Longrightarrow> ?thesis" by simp
next
  case (Cons q rest)
  have "Min (set (q # rest)) = fold min rest q"
    by (rule Min.set_eq_fold)
  with Cons show ?thesis
    by (simp add: lodash_min_def lodash_extremum_def extremum_foldl_min)
qed

lemma lodash_max_Fin: "qs \<noteq> [] \<Longrightarrow> lodash_max (map Fin qs) = JNum (Fin (Max (set qs)))"
proof (cases qs)
  case Nil
  then show "qs \<noteq> [] \<Longrightarrow> ?thesis" by simp
next
  case (Cons q rest)
  have "Max (set (q # rest)) = fold max rest q"
    by (rule Max.set_eq_fold)
  with Cons show ?thesis
    by (simp add: lodash_max_def lodash_extremum_def extremum_foldl_max)
qed

lemma agg_row_value:
  "row_get (agg_row h \<lparr>a_column = col, a_operation = op\<rparr> key grp) ''_value''
   = (let vals = numeric_values col grp in
      if op = ''sum'' then JNum (lodash_sum vals)
      else if op = ''mean'' then JNum (lodash_mean vals)
      else if op = ''median'' then array_get (lodash_sortBy vals) (length vals div 2)
      else if op = ''count'' then JNum (Fin (of_nat (length grp)))
      else if op = ''min'' then lodash_min vals
      else if op = ''max'' then lodash_max vals
      else if col = ''_value'' then JStr key else JUndef)"
  by (simp add: agg_row_def row_get_def Let_def update_conv')



section \<open>Pivot stage: what count counts\<close>

lemma count_field_distinct: "v \<noteq> val \<Longrightarrow> v @ ''_count'' \<noteq> val @ ''_count''"
  by simp

lemma pivot_set_count_same:
  "row_get (pivot_set h ''count'' grp r val) (val @ ''_count'')
     = JNum (Fin (of_nat (length (numeric_values val grp))))"
  by (simp add: pivot_set_def row_get_def update_conv')

lemma pivot_set_count_other:
  "v \<noteq> val \<Longrightarrow> row_get (pivot_set h ''count'' grp r v) (val @ ''_count'') = row_get r (val @ ''_count'')"
  by (simp add: pivot_set_def row_get_def update_conv')

lemma pivot_count_foldl:
  "val \<in> set vs \<Longrightarrow>
   row_get (foldl (pivot_set h ''count'' grp) r vs) (val @ ''_count'')
     = JNum (Fin (of_nat (length (numeric_values val grp))))"
proof (induction vs rule: rev_induct)
  case Nil
  then show ?case by simp
next
  case (snoc v vs)
  show ?case
  proof (cases "v = val")
    case True
    then show ?thesis by (simp add: pivot_set_count_same)
  next
    case False
    with snoc show ?thesis by (simp add: pivot_set_count_other)
  qed
qed

lemma length_numeric_values:
  "length (numeric_values val grp) = length (filter (\<lambda>r. \<not> isNaN (ToNumber (row_get r val))) grp)"
  by (simp add: numeric_values_def filter_map comp_def)


text \<open>
  C5 (as amended).  With the aggregation \<^verbatim>\<open>count\<close>, the field \<^verbatim>\<open><value>_count\<close> of a
  pivot group's row holds the number of the group's rows whose cell for that value
  column converts to a number other than \<open>NaN\<close> (an infinity counts), not the number of
  rows of the group.
\<close>

theorem pivot_count_counts_numbers:
  assumes "p_aggregation cfg = ''count''" and "val \<in> set (p_values cfg)"
  shows "row_get (pivot_row h cfg key grp) (val @ ''_count'')
           = JNum (Fin (of_nat (length (filter (\<lambda>r. \<not> isNaN (ToNumber (row_get r val))) grp))))
         \<and> pivot h cfg data = map (\<lambda>(key, grp). pivot_row h cfg key grp) (pivot_groups h cfg data)"
  using assms
  by (simp add: pivot_row_def pivot_def Let_def pivot_count_foldl length_numeric_values)

theorem pivot_count_counts_numbers_witness:
  "row_get (pivot_row example_host
       \<lparr>p_rows = [''k''], p_columns = [], p_values = [''v''], p_aggregation = ''count''\<rparr> ''a''
       [[(''k'', JStr ''a''), (''v'', JStr ''1'')],
        [(''k'', JStr ''a''), (''v'', JStr ''x'')],
        [(''k'', JStr ''a''), (''v'', JNum (Fin 2))]]) ''v_count'' = JNum (Fin 2)"
proof -
  let ?cfg = "\<lparr>p_rows = [''k''], p_columns = [], p_values = [''v''], p_aggregation = ''count''\<rparr>"
  let ?G = "[[(''k'', JStr ''a''), (''v'', JStr ''1'')],
        [(''k'', JStr ''a''), (''v'', JStr ''x'')],
        [(''k'', JStr ''a''), (''v'', JNum (Fin 2))]]"
  have a: "p_aggregation ?cfg = ''count''" and v: "''v'' \<in> set (p_values ?cfg)"
    by simp_all
  have n: "length (filter (\<lambda>r. \<not> isNaN (ToNumber (row_get r ''v''))) ?G) = 2"
    by code_simp
  from pivot_count_counts_numbers [OF a v, of example_host "''a''" ?G] n show ?thesis
    by simp
qed

theorem pivot_count_finite_counterexample:
  "pivot example_host \<lparr>p_rows = [''k''], p_columns = [], p_values = [''v''], p_aggregation = ''count''\<rparr>
     [[(''k'', JStr ''a''), (''v'', JStr ''Infinity'')]]
     = [[(''k'', JStr ''a''), (''v_count'', JNum (Fin 1))]]
   \<and> length (filter parses_finite (map (\<lambda>r. row_get r ''v'') [[(''k'', JStr ''a''), (''v'', JStr ''Infinity'')]])) = 0"
  by code_simp

section \<open>Formula stage: the running total\<close>

lemma takeWhile_stop: "c \<notin> set xs \<Longrightarrow> takeWhile (\<lambda>d. d \<noteq> c) (xs @ c # rest) = xs"
  by (induction xs) auto

lemma match_call_hit:
  assumes "map upper_ascii name = name" and "cols \<noteq> []" and "CHR '')'' \<notin> set cols"
  shows "match_call name cb (name @ ''('' @ cols @ '')'' @ rest)
           = Some (length name + 1 + length cols + 1, cb cols)"
proof -
  have u: "upper_ascii CHR ''('' = CHR ''(''"
    by (simp add: upper_ascii_def code_def)
  have "ci_prefix (name @ ''('') (name @ ''('' @ cols @ '')'' @ rest)"
    using assms(1) u by (simp add: ci_prefix_def)
  moreover have "drop (length name + 1) (name @ ''('' @ cols @ '')'' @ rest) = cols @ CHR '')'' # rest"
    by simp
  moreover have "takeWhile (\<lambda>c. c \<noteq> CHR '')'') (cols @ CHR '')'' # rest) = cols"
    using assms(3) by (rule takeWhile_stop)
  ultimately show ?thesis
    using assms(2) by (simp add: match_call_def Let_def)
qed

lemma replace_all_one_call:
  assumes "name \<noteq> []" and "map upper_ascii name = name" and "cols \<noteq> []" and "CHR '')'' \<notin> set cols"
  shows "replace_all (match_call name (\<lambda>c. Some (f c))) (name @ ''('' @ cols @ '')'') = Some (f cols)"
proof -
  obtain c cs where n: "name = c # cs"
    using assms(1) by (cases name) auto
  have "match_call name (\<lambda>c. Some (f c)) (name @ ''('' @ cols @ '')'' @ [])
          = Some (length name + 1 + length cols + 1, Some (f cols))"
    using assms(2-4) by (rule match_call_hit)
  then have "match_call name (\<lambda>c. Some (f c)) (c # cs @ ''('' @ cols @ '')'')
          = Some (length cs + length cols + 3, Some (f cols))"
    by (simp add: n)
  then show ?thesis
    by (simp add: n)
qed

lemma js_sum_Fin: "js_sum (map Fin qs) = Fin (sum_list qs)"
  using foldl_js_add_Fin [of 0 qs] by (simp add: js_sum_def)

lemma SUM_upper: "map upper_ascii ''SUM'' = ''SUM''" and LEN_upper: "map upper_ascii ''LEN'' = ''LEN''"
  by code_simp+


lemma formula_result_value:
  assumes "formulaStr h f data idx r = Some fs" and "list_all (regexp_ok h) columns"
    and "evalStr h r fs = Some es" and "js_eval (eval_scope h idx fs es) es = Value v"
  shows "formula_result h columns f data idx r = Some v"
  using assms by (simp add: formula_result_def)

lemma sum_example_row0:
  "formulaStr h \<lparr>fm_name = ''s'', fm_formula = ''SUM(x)''\<rparr>
     [[(''x'', JNum (Fin 1))], [(''x'', JNum (Fin 2))], [(''x'', JNum (Fin 3))]] 0 [(''x'', JNum (Fin 1))] = Some ''1''"
  "evalStr h [(''x'', JNum (Fin 1))] ''1'' = Some ''1''"
  "js_eval sc ''1'' = Value (JNum (Fin 1))"
  by code_simp+

lemma sum_example_row1:
  "formulaStr h \<lparr>fm_name = ''s'', fm_formula = ''SUM(x)''\<rparr>
     [[(''x'', JNum (Fin 1))], [(''x'', JNum (Fin 2))], [(''x'', JNum (Fin 3))]] (Suc 0) [(''x'', JNum (Fin 2))] = Some ''3''"
  "evalStr h [(''x'', JNum (Fin 2))] ''3'' = Some ''3''"
  "js_eval sc ''3'' = Value (JNum (Fin 3))"
  by code_simp+

lemma sum_example_row2:
  "formulaStr h \<lparr>fm_name = ''s'', fm_formula = ''SUM(x)''\<rparr>
     [[(''x'', JNum (Fin 1))], [(''x'', JNum (Fin 2))], [(''x'', JNum (Fin 3))]] (Suc (Suc 0)) [(''x'', JNum (Fin 3))] = Some ''6''"
  "evalStr h [(''x'', JNum (Fin 3))] ''6'' = Some ''6''"
  "js_eval sc ''6'' = Value (JNum (Fin 6))"
  by code_simp+

lemma sum_example:
  assumes "regexp_ok h ''x''"
  shows "apply_formula h [''x''] \<lparr>fm_name = ''s'', fm_formula = ''SUM(x)''\<rparr>
           [[(''x'', JNum (Fin 1))], [(''x'', JNum (Fin 2))], [(''x'', JNum (Fin 3))]]
         = Some [[(''x'', JNum (Fin 1)), (''s'', JNum (Fin 1))],
                 [(''x'', JNum (Fin 2)), (''s'', JNum (Fin 3))],
                 [(''x'', JNum (Fin 3)), (''s'', JNum (Fin 6))]]"
proof -
  let ?f = "\<lparr>fm_name = ''s'', fm_formula = ''SUM(x)''\<rparr>"
  let ?D = "[[(''x'', JNum (Fin 1))], [(''x'', JNum (Fin 2))], [(''x'', JNum (Fin 3))]]"
  have c: "list_all (regexp_ok h) [''x'']"
    using assms by simp
  have "formula_result h [''x''] ?f ?D 0 [(''x'', JNum (Fin 1))] = Some (JNum (Fin 1))"
    by (rule formula_result_value [OF sum_example_row0(1) c sum_example_row0(2) sum_example_row0(3)])
  moreover have "formula_result h [''x''] ?f ?D (Suc 0) [(''x'', JNum (Fin 2))] = Some (JNum (Fin 3))"
    by (rule formula_result_value [OF sum_example_row1(1) c sum_example_row1(2) sum_example_row1(3)])
  moreover have "formula_result h [''x''] ?f ?D (Suc (Suc 0)) [(''x'', JNum (Fin 3))] = Some (JNum (Fin 6))"
    by (rule formula_result_value [OF sum_example_row2(1) c sum_example_row2(2) sum_example_row2(3)])
  ultimately show ?thesis
    by (simp add: apply_formula_def formula_row_def)
qed



section \<open>Formula stage: LEN of a falsy cell, and the comparison in IF\<close>

lemma len_callback_falsy:
  assumes "\<not> truthy (row_get r (trim cols))"
  shows "len_callback h r cols = ''0''"
proof -
  have "nat_digits 0 = ''0''"
    by code_simp
  with assms show ?thesis
    by (simp add: len_callback_def Let_def ToString_def num_to_string_def is_integer_def int_to_string_def)
qed

text \<open>
  C10.  When the row has the column and its cell is the number \<open>0\<close>, the boolean
  \<open>false\<close> or the empty string, the third rewriting step replaces the term \<^verbatim>\<open>LEN(col)\<close>
  by \<open>0\<close>: the callback measures \<^verbatim>\<open>String(row[col] || '')\<close>, so every falsy cell counts
  as the empty string.
\<close>

theorem len_term_of_falsy_cell:
  assumes "cols \<noteq> []" and "CHR '')'' \<notin> set cols"
    and "map_of r (trim cols) = Some v" and "v = JNum (Fin 0) \<or> v = JBool False \<or> v = JStr []"
  shows "replace_all (match_call ''LEN'' (\<lambda>c. Some (len_callback h r c))) (''LEN('' @ cols @ '')'') = Some ''0''"
proof -
  have "replace_all (match_call ''LEN'' (\<lambda>c. Some (len_callback h r c))) (''LEN'' @ ''('' @ cols @ '')'')
          = Some (len_callback h r cols)"
    using assms(1,2) by (intro replace_all_one_call LEN_upper) simp_all
  moreover have "\<not> truthy (row_get r (trim cols))"
    using assms(3,4) by (auto simp: row_get_def truthy_def)
  ultimately show ?thesis
    by (simp add: len_callback_falsy)
qed

theorem len_term_of_falsy_cell_witness:
  "replace_all (match_call ''LEN'' (\<lambda>c. Some (len_callback example_host [(''n'', JNum (Fin 0))] c))) ''LEN(n)''
     = Some ''0''
   \<and> apply_formula example_host [''n''] \<lparr>fm_name = ''l'', fm_formula = ''LEN(n)''\<rparr>
        [[(''n'', JNum (Fin 0))], [(''n'', JNum (Fin 7))]]
     = Some [[(''n'', JNum (Fin 0)), (''l'', JNum (Fin 0))], [(''n'', JNum (Fin 7)), (''l'', JNum (Fin 1))]]"
proof -
  have a: "''n'' \<noteq> []" and b: "CHR '')'' \<notin> set ''n''"
    by simp_all
  have c: "map_of [(''n'', JNum (Fin 0))] (trim ''n'') = Some (JNum (Fin 0))"
    by code_simp
  have d: "JNum (Fin 0) = JNum (Fin 0) \<or> JNum (Fin 0) = JBool False \<or> JNum (Fin 0) = JStr []"
    by simp
  have e: "apply_formula example_host [''n''] \<lparr>fm_name = ''l'', fm_formula = ''LEN(n)''\<rparr>
        [[(''n'', JNum (Fin 0))], [(''n'', JNum (Fin 7))]]
     = Some [[(''n'', JNum (Fin 0)), (''l'', JNum (Fin 0))], [(''n'', JNum (Fin 7)), (''l'', JNum (Fin 1))]]"
    by code_simp
  from len_term_of_falsy_cell [OF a b c d, of example_host] e show ?thesis
    by simp
qed

text \<open>
  C1 at the failing input.  The comparison \<^verbatim>\<open>x > 5\<close> is not recognised by the inner
  regular expression, whose operator group spells the relational operators as the
  HTML entities \<^verbatim>\<open>&gt;\<close> and \<^verbatim>\<open>&lt;\<close>; the text \<^verbatim>\<open>x > 5\<close> reaches \<^verbatim>\<open>eval\<close> unchanged, where
  \<open>x\<close> is not bound, and the \<^verbatim>\<open>catch\<close> yields the false branch although \<open>10 > 5\<close>.
  With the entity spelled out, and with \<^verbatim>\<open>==\<close>, the true branch is taken.
\<close>

theorem if_greater_than_takes_false_branch:
  "replace_all (match_cond [(''x'', JNum (Fin 10))]) ''x > 5'' = Some ''x > 5''
   \<and> apply_formula example_host [''x''] \<lparr>fm_name = ''f'', fm_formula = ''IF(x > 5, 1, 0)''\<rparr>
        [[(''x'', JNum (Fin 10))]] = Some [[(''x'', JNum (Fin 10)), (''f'', JNum (Fin 0))]]
   \<and> apply_formula example_host [''x''] \<lparr>fm_name = ''f'', fm_formula = ''IF(x &gt; 5, 1, 0)''\<rparr>
        [[(''x'', JNum (Fin 10))]] = Some [[(''x'', JNum (Fin 10)), (''f'', JNum (Fin 1))]]
   \<and> apply_formula example_host [''x''] \<lparr>fm_name = ''f'', fm_formula = ''IF(x == 10, 1, 0)''\<rparr>
        [[(''x'', JNum (Fin 10))]] = Some [[(''x'', JNum (Fin 10)), (''f'', JNum (Fin 1))]]"
  by code_simp

section \<open>Formula stage: failures\<close>

lemma replace_all_no_match:
  "(\<And>t. set t \<subseteq> set s \<Longrightarrow> m t = None) \<Longrightarrow> replace_all m s = Some s"
proof (induction s)
  case Nil
  then show ?case by simp
next
  case (Cons c cs)
  have "m (c # cs) = None"
    by (rule Cons.prems) simp
  moreover have "replace_all m cs = Some cs"
  proof (rule Cons.IH)
    fix t :: string
    assume "set t \<subseteq> set cs"
    then have "set t \<subseteq> set (c # cs)" by auto
    then show "m t = None" by (rule Cons.prems)
  qed
  ultimately show ?case by simp
qed

lemma upper_ascii_paren: "upper_ascii c = CHR ''('' \<Longrightarrow> c = CHR ''(''"
proof (cases "97 \<le> code c \<and> code c \<le> 122")
  case True
  assume "upper_ascii c = CHR ''(''"
  with True have "char_of (code c - 32) = CHR ''(''"
    by (simp add: upper_ascii_def)
  then have "of_char (char_of (code c - 32) :: char) = (of_char CHR ''('' :: nat)"
    by (rule arg_cong)
  then have "(code c - 32) mod 256 = 40"
    by simp
  moreover from True have "code c - 32 < 256"
    by linarith
  ultimately have "code c - 32 = 40"
    by simp
  with True have False
    by linarith
  then show ?thesis ..
next
  case False
  assume "upper_ascii c = CHR ''(''"
  with False show ?thesis by (auto simp: upper_ascii_def)
qed

lemma ci_prefix_paren:
  assumes "ci_prefix w t" and "CHR ''('' \<in> set w"
  shows "CHR ''('' \<in> set t"
proof -
  from assms have "CHR ''('' \<in> upper_ascii ` set (take (length w) t)"
    by (metis ci_prefix_def set_map)
  then obtain c where "c \<in> set (take (length w) t)" "upper_ascii c = CHR ''(''"
    by auto
  then show ?thesis
    using upper_ascii_paren in_set_takeD by fastforce
qed

lemma match_call_needs_paren: "CHR ''('' \<notin> set t \<Longrightarrow> match_call name cb t = None"
  using ci_prefix_paren [of "name @ ''(''" t] by (auto simp: match_call_def)

lemma match_if_needs_paren: "CHR ''('' \<notin> set t \<Longrightarrow> match_if cb t = None"
  using ci_prefix_paren [of "''IF(''" t] by (auto simp: match_if_def)

lemma startsWith_member: "startsWith t w \<Longrightarrow> x \<in> set w \<Longrightarrow> x \<in> set t"
  by (metis startsWith_def in_set_takeD)

lemma match_row_needs_paren: "CHR ''('' \<notin> set t \<Longrightarrow> match_row repl t = None"
  using startsWith_member [of t "''ROW()''" "CHR ''(''"] by (auto simp: match_row_def)

lemma formulaStr_without_paren:
  assumes "CHR ''('' \<notin> set (fm_formula f)"
  shows "formulaStr h f data idx r = Some (fm_formula f)"
proof -
  have n: "CHR ''('' \<notin> set t" if "set t \<subseteq> set (fm_formula f)" for t
    using assms that by auto
  have "replace_all (match_call name cb) (fm_formula f) = Some (fm_formula f)" for name cb
    by (rule replace_all_no_match) (simp add: n match_call_needs_paren)
  moreover have "replace_all (match_if cb) (fm_formula f) = Some (fm_formula f)" for cb
    by (rule replace_all_no_match) (simp add: n match_if_needs_paren)
  moreover have "replace_all (match_row repl) (fm_formula f) = Some (fm_formula f)" for repl
    by (rule replace_all_no_match) (simp add: n match_row_needs_paren)
  ultimately show ?thesis
    by (simp add: formulaStr_def)
qed

lemma letter_facts:
  assumes "is_letter_us c"
  shows "\<not> is_ws c" "\<not> is_digit c" "c \<noteq> CHR ''.''" "c \<noteq> CHR ''-''" "c \<noteq> CHR 0x27" "c \<noteq> CHR ''(''"
    "is_ident_start c" "is_ident_part c"
  using assms
  by (auto simp: is_letter_us_def is_ws_def is_digit_def is_ident_start_def is_ident_part_def code_def)

lemma evalStr_of_name:
  assumes "name \<noteq> []" and "list_all is_letter_us name" and "row_get r name = JUndef"
  shows "evalStr h r name = Some name"
proof -
  obtain c cs where n: "name = c # cs"
    using assms(1) by (cases name) auto
  have "takeWhile is_letter_us name = name"
    using assms(2) by (simp add: takeWhile_eq_all_conv list_all_iff)
  then have "match_ident (column_text h r) (c # cs) = Some (Suc (length cs), Some name)"
    using assms(3) n by (simp add: match_ident_def column_text_def)
  then show ?thesis
    by (simp add: evalStr_def n)
qed

lemma js_eval_unbound_name:
  assumes "name \<noteq> []" and "list_all is_letter_us name" and "name \<notin> set literal_words"
    and "name \<notin> set reserved_words" and "scope name = Unbound"
  shows "js_eval scope name = Throws"
proof -
  obtain c cs where n: "name = c # cs"
    using assms(1) by (cases name) auto
  have l: "is_letter_us c" and ls: "\<forall>d \<in> set name. is_letter_us d"
    using assms(2) n by (simp_all add: list_all_iff)
  have w: "dropWhile is_ws name = name"
    using l n by (simp add: letter_facts)
  have "takeWhile is_ident_part name = name" and "dropWhile is_ident_part name = []"
    using ls by (simp_all add: takeWhile_eq_all_conv letter_facts)
  then have p: "parse_operand name = Some (OIdent name, [])"
    using l n by (simp add: parse_operand_def letter_facts)
  have "eval_operand scope (OIdent name) = Throws"
    using assms(3-5) by (simp add: eval_operand_def literal_words_def)
  with w p assms(1) show ?thesis
    by (simp add: js_eval_def)
qed


lemma eval_scope_outer: "name \<notin> set local_names \<Longrightarrow> eval_scope h idx fs es name = outer_scope h name"
  by (simp add: eval_scope_def local_names_def)

lemma formula_result_throws:
  assumes "formulaStr h f data idx r = Some fs" and "evalStr h r fs = Some es"
    and "js_eval (eval_scope h idx fs es) es = Throws"
  shows "formula_result h cs f data idx r = Some JNull"
  using assms by (simp add: formula_result_def)

lemma formula_result_unbound_name:
  assumes "name \<noteq> []" and "list_all is_letter_us name" and "name \<notin> set literal_words"
    and "name \<notin> set reserved_words" and "name \<notin> set local_names" and "outer_scope h name = Unbound"
    and "row_get r name = JUndef"
  shows "formula_result h cs \<lparr>fm_name = n, fm_formula = name\<rparr> data idx r = Some JNull"
proof -
  have "CHR ''('' \<notin> set name"
    using assms(2) letter_facts(6) by (auto simp: list_all_iff)
  then have "formulaStr h \<lparr>fm_name = n, fm_formula = name\<rparr> data idx r = Some name"
    using formulaStr_without_paren [of "\<lparr>fm_name = n, fm_formula = name\<rparr>" h data idx r] by simp
  moreover have "evalStr h r name = Some name"
    using assms(1,2,7) by (rule evalStr_of_name)
  moreover have "js_eval (eval_scope h idx name name) name = Throws"
    using assms(1-4) by (rule js_eval_unbound_name) (simp add: eval_scope_outer assms(5,6))
  ultimately show ?thesis
    by (rule formula_result_throws)
qed

lemma those_map_Some: "(\<And>x. x \<in> set xs \<Longrightarrow> f x = Some (g x)) \<Longrightarrow> those (map f xs) = Some (map g xs)"
  by (induction xs) simp_all

lemma those_map_nth:
  "those (map f xs) = Some ys \<Longrightarrow> length ys = length xs \<and> (\<forall>i<length xs. f (xs ! i) = Some (ys ! i))"
proof (induction xs arbitrary: ys)
  case Nil
  then show ?case by simp
next
  case (Cons x xs)
  from Cons.prems obtain y zs where y: "f x = Some y" and zs: "those (map f xs) = Some zs" and ys: "ys = y # zs"
    by (auto split: option.splits)
  from Cons.IH [OF zs] have "length zs = length xs" and "\<forall>i<length xs. f (xs ! i) = Some (zs ! i)"
    by simp_all
  with y ys show ?case
    by (auto simp: nth_Cons split: nat.splits)
qed

lemma apply_formula_rows:
  assumes "apply_formula h cs f data = Some out" and "i < length data"
  shows "length out = length data"
    and "\<exists>v. formula_result h cs f data i (data ! i) = Some v \<and> out ! i = AList.update (fm_name f) v (data ! i)"
proof -
  from assms(1) have t: "those (map (formula_row h cs f data) (enumerate 0 data)) = Some out"
    by (simp add: apply_formula_def)
  from those_map_nth [OF t] show "length out = length data"
    by simp
  from those_map_nth [OF t] assms(2) have "formula_row h cs f data (enumerate 0 data ! i) = Some (out ! i)"
    by simp
  with assms(2) have "formula_row h cs f data (i, data ! i) = Some (out ! i)"
    by (simp add: nth_enumerate_eq)
  then show "\<exists>v. formula_result h cs f data i (data ! i) = Some v \<and> out ! i = AList.update (fm_name f) v (data ! i)"
    by (auto simp: formula_row_def)
qed

lemma row_get_update: "row_get (AList.update k v r) c = (if c = k then v else row_get r c)"
  by (simp add: row_get_def update_conv')




end
